theory Spec2Isabelle
  imports Complex_Main "HOL-Library.AList" "HOL-Library.Multiset"
begin

section \<open>Python strings and the table-name sanitizer\<close>

text \<open>
  A Python \<open>str\<close> is a sequence of Unicode code points. The sanitizer
  \<open>ExcelSQLManager._clean_table_name\<close> classifies single code points
  (\<open>\w\<close> of module \<open>re\<close>, \<open>str.isalpha\<close>), so names are modelled as lists of
  code points. On ASCII the two classes are written out; beyond ASCII they are
  read from the Unicode character database, which is no part of the repository
  and is a parameter of the model.
\<close>

type_synonym codepoint = nat
type_synonym py_str = "codepoint list"

record unicode_db =
  uni_alpha :: "codepoint \<Rightarrow> bool"
  uni_numeric :: "codepoint \<Rightarrow> bool"

definition lit :: "string \<Rightarrow> py_str" where
  "lit s = map of_char s"

definition underscore :: codepoint where
  "underscore = 95"

definition ascii_alpha :: "codepoint \<Rightarrow> bool" where
  "ascii_alpha c \<longleftrightarrow> (65 \<le> c \<and> c \<le> 90) \<or> (97 \<le> c \<and> c \<le> 122)"

definition ascii_digit :: "codepoint \<Rightarrow> bool" where
  "ascii_digit c \<longleftrightarrow> 48 \<le> c \<and> c \<le> 57"

definition isalpha :: "unicode_db \<Rightarrow> codepoint \<Rightarrow> bool" where
  "isalpha U c = (if c < 128 then ascii_alpha c else uni_alpha U c)"

definition isalnum :: "unicode_db \<Rightarrow> codepoint \<Rightarrow> bool" where
  "isalnum U c \<longleftrightarrow> isalpha U c \<or> (if c < 128 then ascii_digit c else uni_numeric U c)"

text \<open>\<open>\w\<close> on a \<open>str\<close> pattern: alphanumeric, or the underscore.\<close>

definition is_word :: "unicode_db \<Rightarrow> codepoint \<Rightarrow> bool" where
  "is_word U c \<longleftrightarrow> isalnum U c \<or> c = underscore"

text \<open>\<open>re.sub(r'[^\w]', '_', name)\<close>: every code point outside \<open>\w\<close> becomes \<open>_\<close>.\<close>

definition sub_non_word :: "unicode_db \<Rightarrow> py_str \<Rightarrow> py_str" where
  "sub_non_word U name = map (\<lambda>c. if is_word U c then c else underscore) name"

definition unnamed_table :: py_str where
  "unnamed_table = lit ''unnamed_table''"

text \<open>
  \<^verbatim>\<open>
  cleaned = re.sub(r'[^\w]', '_', name)
  if cleaned and not cleaned[0].isalpha() and cleaned[0] != '_':
      cleaned = '_' + cleaned
  return cleaned or 'unnamed_table'
  \<close>
\<close>

definition clean_table_name :: "unicode_db \<Rightarrow> py_str \<Rightarrow> py_str" where
  "clean_table_name U name =
     (let cleaned = sub_non_word U name;
          cleaned = (case cleaned of
                       [] \<Rightarrow> cleaned
                     | c # _ \<Rightarrow> if \<not> isalpha U c \<and> c \<noteq> underscore
                                then underscore # cleaned else cleaned)
      in if cleaned = [] then unnamed_table else cleaned)"

text \<open>An ASCII-only database, used to run the model on concrete names.\<close>

definition ascii_db :: unicode_db where
  "ascii_db = \<lparr>uni_alpha = (\<lambda>_. False), uni_numeric = (\<lambda>_. False)\<rparr>"

section \<open>Query builder\<close>

text \<open>
  The arguments of the builders are Python values of any type. Only two things
  matter to the templates: whether a value is a \<open>str\<close>, and the text that
  \<open>str()\<close> gives for it. Integers are rendered in decimal; any other object is
  represented by its \<open>str()\<close> text.
\<close>

datatype py_value = PStr py_str | PInt int | PObj py_str

fun isinstance_str :: "py_value \<Rightarrow> bool" where
  "isinstance_str (PStr _) = True"
| "isinstance_str _ = False"

fun str_nat :: "nat \<Rightarrow> py_str" where
  "str_nat n = (if n < 10 then [48 + n] else str_nat (n div 10) @ [48 + n mod 10])"

declare str_nat.simps [simp del]

definition str_int :: "int \<Rightarrow> py_str" where
  "str_int i = (if i < 0 then lit ''-'' @ str_nat (nat (- i)) else str_nat (nat i))"

fun py_str_of :: "py_value \<Rightarrow> py_str" where
  "py_str_of (PStr s) = s"
| "py_str_of (PInt i) = str_int i"
| "py_str_of (PObj s) = s"

definition quote :: codepoint where
  "quote = 39"

text \<open>The f-string \<open>f"'{v}'"\<close>: the text between two single quotes, nothing escaped.\<close>

definition quoted :: "py_str \<Rightarrow> py_str" where
  "quoted s = quote # s @ [quote]"

text \<open>\<open>sep.join(xs)\<close>\<close>

fun join :: "py_str \<Rightarrow> py_str list \<Rightarrow> py_str" where
  "join sep [] = []"
| "join sep [x] = x"
| "join sep (x # y # ys) = x @ sep @ join sep (y # ys)"

text \<open>
  \<^verbatim>\<open>
  if isinstance(value, str):
      value = f"'{value}'"
  return f"SELECT * FROM {table_name} WHERE {column} {operator} {value}"
  \<close>
\<close>

definition filter_by_value :: "py_str \<Rightarrow> py_str \<Rightarrow> py_value \<Rightarrow> py_str \<Rightarrow> py_str" where
  "filter_by_value table_name column val operator =
     (let val' = (if isinstance_str val then quoted (py_str_of val) else py_str_of val)
      in lit ''SELECT * FROM '' @ table_name @ lit '' WHERE '' @ column @ lit '' ''
         @ operator @ lit '' '' @ val')"

text \<open>
  \<^verbatim>\<open>
  if all(isinstance(v, str) for v in values):
      values_str = ", ".join([f"'{v}'" for v in values])
  else:
      values_str = ", ".join([str(v) for v in values])
  return f"SELECT * FROM {table_name} WHERE {column} IN ({values_str})"
  \<close>
\<close>

definition filter_by_multiple_values :: "py_str \<Rightarrow> py_str \<Rightarrow> py_value list \<Rightarrow> py_str" where
  "filter_by_multiple_values table_name column vals =
     (let values_str =
        (if list_all isinstance_str vals
         then join (lit '', '') (map (\<lambda>v. quoted (py_str_of v)) vals)
         else join (lit '', '') (map py_str_of vals))
      in lit ''SELECT * FROM '' @ table_name @ lit '' WHERE '' @ column @ lit '' IN (''
         @ values_str @ lit '')'')"

section \<open>Datasets, the document store and the relational engine\<close>

text \<open>
  A dataset (a pandas \<open>DataFrame\<close>) has ordered columns and ordered rows of
  cells; a cell is empty (\<open>NULL\<close>, \<open>NaN\<close>), a number (an integer or a double,
  given by its value) or a text.
  A Python \<open>dict\<close> keeps insertion order, so the two dataset maps of the
  manager are association lists with distinct keys, updated in place or
  extended at the end.
\<close>

datatype cell = Null | Num rat | Text py_str

record dataframe =
  columns :: "py_str list"
  rows :: "cell list list"

type_synonym sheets = "(py_str \<times> dataframe) list"
type_synonym path = py_str
type_synonym tables = "py_str \<rightharpoonup> dataframe"

datatype error =
    FileNotFoundError
  | PermissionError
  | OperationalError
  | DatabaseError py_str
  | ValueError py_str
  | IndexError
  | IntegerOverflow

datatype conn = Open | Closed

datatype log_entry =
    Info_connected
  | Info_connection_closed
  | Info_temp_db_removed
  | Warning_temp_db_not_removed error
  | Info_excel_loaded "py_str list"
  | Warning_sheet_not_found py_str
  | Info_sheet_loaded py_str py_str nat
  | Info_query_done nat
  | Info_sheet_updated py_str nat
  | Info_excel_saved path

text \<open>
  The world outside the manager: the Excel documents and the SQLite database
  files on disk, and the paths the process may neither create, overwrite nor
  delete. A document holds its sheets as they were written, cell by cell.
\<close>

record world =
  workbooks :: "path \<rightharpoonup> sheets"
  databases :: "path \<rightharpoonup> tables"
  protected :: "path set"

text \<open>
  What the repository leaves to SQLite, pandas and openpyxl is a parameter:
  \<^item> the Unicode classes used by the sanitizer;
  \<^item> the result of a query text on the tables of a database
    (\<open>pd.read_sql_query\<close>, which only reads);
  \<^item> whether \<open>DataFrame.to_sql\<close> refuses a frame;
  \<^item> whether \<open>DataFrame.to_excel\<close> refuses a sheet (a title or a cell that
    the writer does not take);
  \<^item> what \<open>pd.read_excel\<close> makes of a text cell that is none of its
    missing-value markers, and of the header row (it renames repeated and
    empty column names);
  \<^item> the table that a text interpolated where SQL expects a table name
    denotes, and the value that a text interpolated where SQL expects an
    expression denotes on a row of the declared columns. A text that SQLite
    cannot read there raises.
\<close>

record env =
  unicode :: unicode_db
  read_sql_query :: "tables \<Rightarrow> py_str \<Rightarrow> error + dataframe"
  to_sql_fails :: "py_str \<Rightarrow> dataframe \<Rightarrow> bool"
  to_excel_fails :: "py_str \<Rightarrow> dataframe \<Rightarrow> bool"
  excel_text :: "py_str \<Rightarrow> cell"
  excel_columns :: "py_str list \<Rightarrow> py_str list"
  table_ref :: "tables \<Rightarrow> py_str \<Rightarrow> error + dataframe"
  column_ref :: "py_str list \<Rightarrow> py_str \<Rightarrow> error + (cell list \<Rightarrow> cell)"

record manager =
  excel_file_path :: path
  original_excel_data :: sheets
  modified_data :: sheets
  temp_db :: bool
  db_path :: path
  connection :: "conn option"

text \<open>
  \<open>__init__\<close>: \<open>mktemp\<close> is the name \<open>tempfile.mktemp(suffix='.db')\<close> returns.
  No file is created and no dataset is loaded.
\<close>

definition init :: "path \<Rightarrow> path option \<Rightarrow> path \<Rightarrow> manager" where
  "init excel_path db_path_arg mktemp =
     \<lparr>excel_file_path = excel_path,
      original_excel_data = [],
      modified_data = [],
      temp_db = (db_path_arg = None),
      db_path = (case db_path_arg of None \<Rightarrow> mktemp | Some p \<Rightarrow> p),
      connection = None\<rparr>"

definition tables_of :: "world \<Rightarrow> path \<Rightarrow> tables" where
  "tables_of w p = (case databases w p of None \<Rightarrow> Map.empty | Some t \<Rightarrow> t)"

text \<open>SQLite creates the database file when it is opened and does not exist.\<close>

definition open_db :: "world \<Rightarrow> path \<Rightarrow> error + world" where
  "open_db w p =
     (case databases w p of
        Some _ \<Rightarrow> Inr w
      | None \<Rightarrow> if p \<in> protected w then Inl OperationalError
                else Inr (w\<lparr>databases := (databases w)(p \<mapsto> Map.empty)\<rparr>))"

definition connect :: "world \<Rightarrow> manager \<Rightarrow> error + world \<times> manager \<times> log_entry list" where
  "connect w m =
     (case open_db w (db_path m) of
        Inl e \<Rightarrow> Inl e
      | Inr w' \<Rightarrow> Inr (w', m\<lparr>connection := Some Open\<rparr>, [Info_connected]))"

text \<open>\<open>os.remove\<close> on a database file.\<close>

definition os_remove :: "world \<Rightarrow> path \<Rightarrow> error + world" where
  "os_remove w p =
     (if databases w p = None then Inl FileNotFoundError
      else if p \<in> protected w then Inl PermissionError
      else Inr (w\<lparr>databases := (databases w)(p := None)\<rparr>))"

text \<open>
  \<^verbatim>\<open>
  if self.connection:
      self.connection.close()
      logger.info("Connexion fermee")
  if self.temp_db and os.path.exists(self.db_path):
      try:
          os.remove(self.db_path)
          logger.info(...)
      except Exception as e:
          logger.warning(...)
  \<close>
  Releasing a connection of SQLAlchemy does not raise and may be repeated; the
  attribute keeps the released connection object.
\<close>

definition close :: "world \<Rightarrow> manager \<Rightarrow> error + world \<times> manager \<times> log_entry list" where
  "close w m =
     (let (m1, log1) =
            (case connection m of
               None \<Rightarrow> (m, [])
             | Some _ \<Rightarrow> (m\<lparr>connection := Some Closed\<rparr>, [Info_connection_closed]))
      in if temp_db m \<and> databases w (db_path m) \<noteq> None
         then (case os_remove w (db_path m) of
                 Inr w' \<Rightarrow> Inr (w', m1, log1 @ [Info_temp_db_removed])
               | Inl e \<Rightarrow> Inr (w, m1, log1 @ [Warning_temp_db_not_removed e]))
         else Inr (w, m1, log1))"

text \<open>
  \<open>pd.read_excel(path, sheet_name=None, engine='openpyxl')\<close> is called with the
  defaults of pandas for missing values: a text cell that holds one of the
  default markers is read as missing. The markers below are among them.
\<close>

definition default_na_values :: "py_str list" where
  "default_na_values =
     map lit ['''', ''NA'', ''N/A'', ''NULL'', ''NaN'', ''nan'', ''null'', ''n/a'', ''#N/A'']"

definition read_cell :: "env \<Rightarrow> cell \<Rightarrow> cell" where
  "read_cell E c =
     (case c of
        Text s \<Rightarrow> if s \<in> set default_na_values then Null else excel_text E s
      | _ \<Rightarrow> c)"

definition read_sheet :: "env \<Rightarrow> dataframe \<Rightarrow> dataframe" where
  "read_sheet E df =
     \<lparr>columns = excel_columns E (columns df), rows = map (map (read_cell E)) (rows df)\<rparr>"

definition read_excel :: "env \<Rightarrow> sheets \<Rightarrow> sheets" where
  "read_excel E book = map (\<lambda>(sheet_name, df). (sheet_name, read_sheet E df)) book"

text \<open>
  \<open>load_excel_to_memory\<close>: both maps receive a copy of what \<open>read_excel\<close>
  returns.
\<close>

definition load_excel_to_memory ::
  "env \<Rightarrow> world \<Rightarrow> manager \<Rightarrow> error + manager \<times> sheets \<times> log_entry list" where
  "load_excel_to_memory E w m =
     (case workbooks w (excel_file_path m) of
        None \<Rightarrow> Inl FileNotFoundError
      | Some book \<Rightarrow>
          (let excel_data = read_excel E book
           in Inr (m\<lparr>original_excel_data := excel_data, modified_data := excel_data\<rparr>,
                   excel_data, [Info_excel_loaded (map fst excel_data)])))"

text \<open>\<open>df.to_sql(table_name, engine, if_exists='replace', index=False)\<close>\<close>

definition to_sql :: "env \<Rightarrow> world \<Rightarrow> path \<Rightarrow> py_str \<Rightarrow> dataframe \<Rightarrow> error + world" where
  "to_sql E w p table_name df =
     (case open_db w p of
        Inl e \<Rightarrow> Inl e
      | Inr w' \<Rightarrow>
          if to_sql_fails E table_name df then Inl (DatabaseError table_name)
          else Inr (w'\<lparr>databases := (databases w')(p \<mapsto> (tables_of w' p)(table_name \<mapsto> df))\<rparr>))"

text \<open>
  The loop of \<open>load_sheets_to_sql\<close>: a name that is no key of the original map
  is logged and skipped (\<open>continue\<close>); an exception of \<open>to_sql\<close> is logged and
  raised again, which ends the loop.
\<close>

fun load_loop ::
  "env \<Rightarrow> sheets \<Rightarrow> path \<Rightarrow> py_str list \<Rightarrow> world \<Rightarrow> error + world \<times> log_entry list" where
  "load_loop E orig p [] w = Inr (w, [])"
| "load_loop E orig p (sheet_name # rest) w =
     (case map_of orig sheet_name of
        None \<Rightarrow>
          (case load_loop E orig p rest w of
             Inl e \<Rightarrow> Inl e
           | Inr (w', l) \<Rightarrow> Inr (w', Warning_sheet_not_found sheet_name # l))
      | Some df \<Rightarrow>
          (let table_name = clean_table_name (unicode E) sheet_name
           in case to_sql E w p table_name df of
                Inl e \<Rightarrow> Inl e
              | Inr w1 \<Rightarrow>
                  (case load_loop E orig p rest w1 of
                     Inl e \<Rightarrow> Inl e
                   | Inr (w', l) \<Rightarrow>
                       Inr (w', Info_sheet_loaded sheet_name table_name (length (rows df)) # l))))"

text \<open>
  \<^verbatim>\<open>
  if not self.original_excel_data:
      self.load_excel_to_memory()
  sheets_to_load = sheet_names if sheet_names else list(self.original_excel_data.keys())
  \<close>
  An absent and an empty list of names both select every sheet.
\<close>

definition load_sheets_to_sql ::
  "env \<Rightarrow> world \<Rightarrow> manager \<Rightarrow> py_str list option \<Rightarrow> error + world \<times> manager \<times> log_entry list" where
  "load_sheets_to_sql E w m sheet_names =
     (case (if original_excel_data m = [] then load_excel_to_memory E w m
            else Inr (m, original_excel_data m, [])) of
        Inl e \<Rightarrow> Inl e
      | Inr (m1, _, log1) \<Rightarrow>
          (let sheets_to_load =
                 (case sheet_names of
                    None \<Rightarrow> map fst (original_excel_data m1)
                  | Some ns \<Rightarrow> if ns = [] then map fst (original_excel_data m1) else ns)
           in case load_loop E (original_excel_data m1) (db_path m1) sheets_to_load w of
                Inl e \<Rightarrow> Inl e
              | Inr (w', log2) \<Rightarrow> Inr (w', m1, log1 @ log2)))"

text \<open>\<open>execute_query\<close>: \<open>pd.read_sql_query(query, self.engine)\<close>.\<close>

definition execute_query ::
  "env \<Rightarrow> world \<Rightarrow> manager \<Rightarrow> py_str \<Rightarrow> error + world \<times> dataframe \<times> log_entry list" where
  "execute_query E w m query =
     (case open_db w (db_path m) of
        Inl e \<Rightarrow> Inl e
      | Inr w' \<Rightarrow>
          (case read_sql_query E (tables_of w' (db_path m)) query of
             Inl e \<Rightarrow> Inl e
           | Inr result \<Rightarrow> Inr (w', result, [Info_query_done (length (rows result))])))"

text \<open>
  \<^verbatim>\<open>
  new_data = self.execute_query(query)
  self.modified_data[sheet_name] = new_data
  \<close>
\<close>

definition update_sheet_from_query ::
  "env \<Rightarrow> world \<Rightarrow> manager \<Rightarrow> py_str \<Rightarrow> py_str \<Rightarrow> error + world \<times> manager \<times> log_entry list" where
  "update_sheet_from_query E w m sheet_name query =
     (case execute_query E w m query of
        Inl e \<Rightarrow> Inl e
      | Inr (w', new_data, l) \<Rightarrow>
          Inr (w', m\<lparr>modified_data := AList.update sheet_name new_data (modified_data m)\<rparr>,
               l @ [Info_sheet_updated sheet_name (length (rows new_data))]))"





text \<open>
  What a successful run of the loop leaves in the database: the requested
  names in order, each present one creating or replacing the table of its
  sanitized name; and the log line of each name.
\<close>

definition materialize :: "env \<Rightarrow> sheets \<Rightarrow> py_str list \<Rightarrow> tables \<Rightarrow> tables" where
  "materialize E orig names t =
     fold (\<lambda>n t. case map_of orig n of None \<Rightarrow> t
                  | Some df \<Rightarrow> t(clean_table_name (unicode E) n \<mapsto> df)) names t"

definition loop_log :: "env \<Rightarrow> sheets \<Rightarrow> py_str \<Rightarrow> log_entry" where
  "loop_log E orig n =
     (case map_of orig n of
        None \<Rightarrow> Warning_sheet_not_found n
      | Some df \<Rightarrow> Info_sheet_loaded n (clean_table_name (unicode E) n) (length (rows df)))"

section \<open>A small workbook\<close>

text \<open>
  The \<open>Sales\<close> example: one document with one sheet; an engine that answers
  two query texts, refuses frames without columns, reads a plain name as the
  table or the column of that name, and a store that returns every text that
  is no missing-value marker and every header as written.
\<close>

definition demo_frame :: dataframe where
  "demo_frame =
     \<lparr>columns = [lit ''category'', lit ''amount''],
      rows = [[Text (lit ''A''), Num 100], [Text (lit ''B''), Num 300], [Text (lit ''C''), Num 600]]\<rparr>"

definition demo_result :: dataframe where
  "demo_result = \<lparr>columns = [lit ''category''], rows = [[Text (lit ''C'')]]\<rparr>"

definition na_result :: dataframe where
  "na_result = \<lparr>columns = [lit ''code''], rows = [[Text (lit ''NA'')]]\<rparr>"

fun index_of :: "'a \<Rightarrow> 'a list \<Rightarrow> nat option" where
  "index_of x [] = None"
| "index_of x (y # ys) = (if x = y then Some 0 else map_option Suc (index_of x ys))"

definition cell_at :: "nat \<Rightarrow> cell list \<Rightarrow> cell" where
  "cell_at j row = (if j < length row then row ! j else Null)"

definition demo_env :: env where
  "demo_env =
     \<lparr>unicode = ascii_db,
      read_sql_query = (\<lambda>t q. if q = lit ''q'' then Inr demo_result
                              else if q = lit ''n'' then Inr na_result
                              else Inl (DatabaseError q)),
      to_sql_fails = (\<lambda>_ df. columns df = []),
      to_excel_fails = (\<lambda>_ _. False),
      excel_text = Text,
      excel_columns = (\<lambda>cols. cols),
      table_ref = (\<lambda>t n. case t n of None \<Rightarrow> Inl (DatabaseError n) | Some df \<Rightarrow> Inr df),
      column_ref = (\<lambda>cols n. case index_of n cols of
                                  None \<Rightarrow> Inl (DatabaseError n)
                                | Some j \<Rightarrow> Inr (cell_at j))\<rparr>"

definition demo_world :: world where
  "demo_world =
     \<lparr>workbooks = [lit ''b.xlsx'' \<mapsto> [(lit ''S'', demo_frame)]],
      databases = Map.empty,
      protected = {}\<rparr>"

definition demo_manager :: manager where
  "demo_manager =
     (init (lit ''b.xlsx'') None (lit ''t.db''))
       \<lparr>original_excel_data := [(lit ''S'', demo_frame)],
        modified_data := [(lit ''S'', demo_frame)]\<rparr>"

lemmas demo_defs = demo_frame_def demo_result_def na_result_def demo_env_def demo_world_def
  demo_manager_def init_def lit_def

section \<open>Data-quality report\<close>
















section \<open>Analytical queries\<close>





















subsection \<open>Outlier detection\<close>



















subsection \<open>Pareto analysis\<close>





















section \<open>Properties of the sanitizer\<close>

lemma is_word_underscore: "is_word U underscore"
  by (simp add: is_word_def)

lemma isalpha_is_word: "isalpha U c \<Longrightarrow> is_word U c"
  by (simp add: is_word_def isalnum_def)

lemma sub_non_word_is_word: "c \<in> set (sub_non_word U name) \<Longrightarrow> is_word U c"
  by (auto simp: sub_non_word_def is_word_underscore)

lemma unnamed_table_is_word: "c \<in> set unnamed_table \<Longrightarrow> is_word U c"
  by (auto simp: unnamed_table_def lit_def is_word_def isalnum_def isalpha_def
      ascii_alpha_def underscore_def)

lemma unnamed_table_head: "isalpha U (hd unnamed_table)"
  by (simp add: unnamed_table_def lit_def isalpha_def ascii_alpha_def)

lemma clean_table_name_Nil: "clean_table_name U [] = unnamed_table"
  by (simp add: clean_table_name_def sub_non_word_def)

lemma clean_table_name_Cons:
  "clean_table_name U (c # cs) =
     (let d = (if is_word U c then c else underscore)
      in if \<not> isalpha U d \<and> d \<noteq> underscore
         then underscore # sub_non_word U (c # cs) else sub_non_word U (c # cs))"
  by (simp add: clean_table_name_def sub_non_word_def Let_def)

text \<open>
  Claim C3. For every input string the sanitized table name is non-empty,
  consists of word characters only and starts with a letter or an underscore.
  The name is a function of the input alone: the empty input gives the fixed
  name \<open>unnamed_table\<close>, and any other input gives its own characters, each
  non-word character replaced by an underscore, behind at most one added
  underscore.
\<close>

theorem clean_table_name_sanitized:
  "clean_table_name U name \<noteq> []
   \<and> (\<forall>c \<in> set (clean_table_name U name). is_word U c)
   \<and> (isalpha U (hd (clean_table_name U name)) \<or> hd (clean_table_name U name) = underscore)
   \<and> (name = [] \<longrightarrow> clean_table_name U name = unnamed_table)
   \<and> (name \<noteq> [] \<longrightarrow>
        clean_table_name U name = sub_non_word U name
        \<or> clean_table_name U name = underscore # sub_non_word U name)
   \<and> length (sub_non_word U name) = length name
   \<and> (\<forall>i < length name.
        sub_non_word U name ! i = (if is_word U (name ! i) then name ! i else underscore))"
proof (cases name)
  case Nil
  then show ?thesis
    using unnamed_table_is_word [of _ U] unnamed_table_head [of U]
    by (auto simp: clean_table_name_Nil sub_non_word_def unnamed_table_def lit_def)
next
  case (Cons c cs)
  have pos: "length (sub_non_word U name) = length name"
    by (simp add: sub_non_word_def)
  have nth: "\<forall>i < length name.
      sub_non_word U name ! i = (if is_word U (name ! i) then name ! i else underscore)"
    by (simp add: sub_non_word_def)
  have hd_sub: "hd (sub_non_word U (c # cs)) = (if is_word U c then c else underscore)"
    by (simp add: sub_non_word_def)
  have ne: "sub_non_word U (c # cs) \<noteq> []"
    by (simp add: sub_non_word_def)
  show ?thesis
    using Cons pos nth hd_sub ne sub_non_word_is_word [of _ U "c # cs"]
    by (auto simp: clean_table_name_Cons Let_def is_word_underscore)
qed

theorem clean_table_name_sanitized_witness:
  "clean_table_name ascii_db (lit ''2024 Q1-Sales'') = lit ''_2024_Q1_Sales''
   \<and> list_all (is_word ascii_db) (clean_table_name ascii_db (lit ''2024 Q1-Sales''))
   \<and> clean_table_name ascii_db [] = lit ''unnamed_table''"
  using clean_table_name_sanitized [of ascii_db "lit ''2024 Q1-Sales''"]
    clean_table_name_sanitized [of ascii_db "[]"]
  by (simp add: clean_table_name_def sub_non_word_def lit_def is_word_def isalnum_def
      isalpha_def ascii_alpha_def ascii_digit_def underscore_def Let_def unnamed_table_def)


section \<open>Properties of the query builder\<close>

lemma filter_by_value_str:
  "filter_by_value table_name column (PStr s) operator =
     lit ''SELECT * FROM '' @ table_name @ lit '' WHERE '' @ column @ lit '' '' @ operator
     @ lit '' '' @ quoted s"
  by (simp add: filter_by_value_def)

lemma filter_by_multiple_values_all_str:
  "filter_by_multiple_values table_name column (map PStr ss) =
     lit ''SELECT * FROM '' @ table_name @ lit '' WHERE '' @ column @ lit '' IN (''
     @ join (lit '', '') (map quoted ss) @ lit '')''"
  by (simp add: filter_by_multiple_values_def list_all_iff comp_def)

text \<open>
  Claim C9. Every string element of the value list given to the membership
  filter appears single-quoted in the generated \<open>IN\<close> clause. The code quotes
  only when all elements are strings: in the list \<open>["a", 1]\<close> the string is
  interpolated bare.
\<close>

theorem filter_by_multiple_values_mixed:
  "filter_by_multiple_values (lit ''t'') (lit ''c'') [PStr (lit ''a''), PInt 1]
     = lit ''SELECT * FROM t WHERE c IN (a, 1)''"
  by (simp add: filter_by_multiple_values_def lit_def str_int_def str_nat.simps)

section \<open>Properties of the manager\<close>

lemma open_db_tables: "open_db w p = Inr w' \<Longrightarrow> tables_of w' q = tables_of w q"
  by (auto simp: open_db_def tables_of_def split: option.splits if_splits)

lemma open_db_other: "open_db w p = Inr w' \<Longrightarrow> workbooks w' = workbooks w \<and> protected w' = protected w"
  by (auto simp: open_db_def tables_of_def split: option.splits if_splits)

lemma update_unfold:
  assumes "update_sheet_from_query E w m name q = Inr (w', m', l)"
  shows "\<exists>r. open_db w (db_path m) = Inr w'
     \<and> read_sql_query E (tables_of w (db_path m)) q = Inr r
     \<and> m' = m\<lparr>modified_data := AList.update name r (modified_data m)\<rparr>
     \<and> l = [Info_query_done (length (rows r)), Info_sheet_updated name (length (rows r))]"
  using assms
  by (auto simp: update_sheet_from_query_def execute_query_def open_db_tables split: sum.splits)

lemma update_sheet_from_query_fails:
  "execute_query E w m q = Inl e \<Longrightarrow> update_sheet_from_query E w m name q = Inl e"
  by (simp add: update_sheet_from_query_def)

text \<open>
  Claim C7. When \<open>update_sheet_from_query\<close> returns, the entry of the modified
  map for the sheet name is exactly the result of the query on the tables as
  they were (a full replacement: an existing key keeps its place, a new key
  goes last), every other entry of the modified map is as before, the
  original map is as before, and so are the tables of every database and the
  documents on disk.
\<close>

theorem update_sheet_from_query_replaces:
  assumes "update_sheet_from_query E w m name q = Inr (w', m', l)"
  shows "\<exists>r. read_sql_query E (tables_of w (db_path m)) q = Inr r
     \<and> map_of (modified_data m') name = Some r
     \<and> (\<forall>n. n \<noteq> name \<longrightarrow> map_of (modified_data m') n = map_of (modified_data m) n)
     \<and> map fst (modified_data m') =
         (if name \<in> set (map fst (modified_data m)) then map fst (modified_data m)
          else map fst (modified_data m) @ [name])
     \<and> original_excel_data m' = original_excel_data m
     \<and> (\<forall>p. tables_of w' p = tables_of w p)
     \<and> workbooks w' = workbooks w"
proof -
  from update_unfold [OF assms] obtain r where
    o: "open_db w (db_path m) = Inr w'"
    and r: "read_sql_query E (tables_of w (db_path m)) q = Inr r"
    and m': "m' = m\<lparr>modified_data := AList.update name r (modified_data m)\<rparr>"
    by blast
  have 1: "map_of (modified_data m') name = Some r"
    by (simp add: m' update_conv')
  have 2: "\<forall>n. n \<noteq> name \<longrightarrow> map_of (modified_data m') n = map_of (modified_data m) n"
    by (simp add: m' update_conv')
  have 3: "map fst (modified_data m') =
         (if name \<in> set (map fst (modified_data m)) then map fst (modified_data m)
          else map fst (modified_data m) @ [name])"
  proof -
    have "modified_data m' = AList.update name r (modified_data m)"
      by (simp add: m')
    then show ?thesis
      by (simp only: update_keys)
  qed
  have 4: "original_excel_data m' = original_excel_data m"
    by (simp add: m')
  have 5: "\<forall>p. tables_of w' p = tables_of w p"
    using open_db_tables [OF o] by simp
  have 6: "workbooks w' = workbooks w"
    using open_db_other [OF o] by simp
  from r 1 2 3 4 5 6 show ?thesis by blast
qed



lemma read_cell_unchanged:
  "read_cell E c = c \<longleftrightarrow>
     (case c of Text s \<Rightarrow> s \<notin> set default_na_values \<and> excel_text E s = Text s | _ \<Rightarrow> True)"
  by (cases c) (auto simp: read_cell_def)




lemma load_loop_skip:
  "map_sum id fst (load_loop E orig p names w)
   = map_sum id fst (load_loop E orig p (filter (\<lambda>n. map_of orig n \<noteq> None) names) w)"
proof (induction names arbitrary: w)
  case Nil
  show ?case by simp
next
  case (Cons n ns)
  show ?case
  proof (cases "map_of orig n")
    case None
    then show ?thesis
      using Cons [of w] by (auto split: sum.splits)
  next
    case (Some df)
    show ?thesis
    proof (cases "to_sql E w p (clean_table_name (unicode E) n) df")
      case (Inl e)
      with Some show ?thesis by (simp add: Let_def)
    next
      case (Inr w1)
      with Some Cons [of w1] show ?thesis
        by (cases "load_loop E orig p ns w1";
            cases "load_loop E orig p (filter (\<lambda>n. map_of orig n \<noteq> None) ns) w1")
           (auto simp: Let_def)
    qed
  qed
qed

lemma to_sql_ok:
  assumes "open_db w p = Inr w0" and "\<not> to_sql_fails E tn df"
  shows "\<exists>w1. to_sql E w p tn df = Inr w1 \<and> tables_of w1 p = (tables_of w p)(tn \<mapsto> df)
     \<and> databases w1 p \<noteq> None \<and> workbooks w1 = workbooks w \<and> protected w1 = protected w
     \<and> (\<forall>q. q \<noteq> p \<longrightarrow> databases w1 q = databases w q)"
  using assms
  by (auto simp: to_sql_def open_db_def tables_of_def split: option.splits if_splits)

lemma open_db_again: "databases w p \<noteq> None \<Longrightarrow> open_db w p = Inr w"
  by (auto simp: open_db_def)


lemma load_loop_ok:
  assumes "\<forall>n \<in> set names. \<forall>df. map_of orig n = Some df \<longrightarrow>
              \<not> to_sql_fails E (clean_table_name (unicode E) n) df"
    and "databases w p \<noteq> None \<or> p \<notin> protected w"
  shows "\<exists>w'. load_loop E orig p names w = Inr (w', map (loop_log E orig) names)
     \<and> tables_of w' p = materialize E orig names (tables_of w p)
     \<and> workbooks w' = workbooks w \<and> protected w' = protected w
     \<and> (\<forall>q. q \<noteq> p \<longrightarrow> databases w' q = databases w q)"
  using assms
proof (induction names arbitrary: w)
  case Nil
  show ?case by (simp add: materialize_def)
next
  case (Cons n ns)
  show ?case
  proof (cases "map_of orig n")
    case None
    from Cons.IH [of w] Cons.prems
    obtain w' where "load_loop E orig p ns w = Inr (w', map (loop_log E orig) ns)"
      and "tables_of w' p = materialize E orig ns (tables_of w p)"
      and "workbooks w' = workbooks w" and "protected w' = protected w"
      and "\<forall>q. q \<noteq> p \<longrightarrow> databases w' q = databases w q"
      by auto
    with None show ?thesis
      by (simp add: materialize_def loop_log_def)
  next
    case (Some df)
    have op: "\<exists>w0. open_db w p = Inr w0"
      using Cons.prems(2) by (auto simp: open_db_def split: option.splits)
    have acc: "\<not> to_sql_fails E (clean_table_name (unicode E) n) df"
      using Cons.prems(1) Some by simp
    from op acc to_sql_ok
    obtain w1 where w1: "to_sql E w p (clean_table_name (unicode E) n) df = Inr w1"
      and t1: "tables_of w1 p = (tables_of w p)(clean_table_name (unicode E) n \<mapsto> df)"
      and d1: "databases w1 p \<noteq> None" and b1: "workbooks w1 = workbooks w"
      and p1: "protected w1 = protected w"
      and o1: "\<forall>q. q \<noteq> p \<longrightarrow> databases w1 q = databases w q"
      by blast
    from Cons.IH [of w1] Cons.prems(1) d1
    obtain w' where "load_loop E orig p ns w1 = Inr (w', map (loop_log E orig) ns)"
      and "tables_of w' p = materialize E orig ns (tables_of w1 p)"
      and "workbooks w' = workbooks w1" and "protected w' = protected w1"
      and "\<forall>q. q \<noteq> p \<longrightarrow> databases w' q = databases w1 q"
      by auto
    with Some w1 t1 b1 p1 o1 show ?thesis
      by (simp add: materialize_def loop_log_def)
  qed
qed

lemma materialize_dom_mono: "dom t \<subseteq> dom (materialize E orig names t)"
proof (induction names arbitrary: t)
  case Nil
  show ?case by (simp add: materialize_def)
next
  case (Cons n ns)
  have "dom t \<subseteq> dom (case map_of orig n of None \<Rightarrow> t
                  | Some df \<Rightarrow> t(clean_table_name (unicode E) n \<mapsto> df))"
    by (auto split: option.splits)
  also have "\<dots> \<subseteq> dom (materialize E orig ns (case map_of orig n of None \<Rightarrow> t
                  | Some df \<Rightarrow> t(clean_table_name (unicode E) n \<mapsto> df)))"
    by (rule Cons.IH)
  finally show ?case by (simp add: materialize_def)
qed

lemma materialize_dom:
  "n \<in> set names \<Longrightarrow> map_of orig n \<noteq> None \<Longrightarrow>
     clean_table_name (unicode E) n \<in> dom (materialize E orig names t)"
proof (induction names arbitrary: t)
  case Nil
  then show ?case by simp
next
  case (Cons a ns)
  show ?case
  proof (cases "n = a")
    case True
    with Cons.prems obtain df where df: "map_of orig a = Some df" by auto
    have "clean_table_name (unicode E) a \<in> dom (t(clean_table_name (unicode E) a \<mapsto> df))"
      by simp
    with materialize_dom_mono [of "t(clean_table_name (unicode E) a \<mapsto> df)" E orig ns]
    show ?thesis using True df by (auto simp: materialize_def)
  next
    case False
    with Cons.prems have "n \<in> set ns" by simp
    from Cons.IH [OF this Cons.prems(2)] show ?thesis
      by (simp add: materialize_def)
  qed
qed

lemma materialize_filter:
  "materialize E orig (filter (\<lambda>n. map_of orig n \<noteq> None) names) t = materialize E orig names t"
  by (induction names arbitrary: t) (auto simp: materialize_def)



lemma clean_S: "clean_table_name ascii_db (lit ''S'') = lit ''S''"
  by (simp add: clean_table_name_def sub_non_word_def lit_def is_word_def isalnum_def
      isalpha_def ascii_alpha_def ascii_digit_def underscore_def Let_def)

lemma ne_XS: "lit ''X'' \<noteq> lit ''S''"
  by (simp add: lit_def)

lemma demo_log:
  "map (loop_log demo_env [(lit ''S'', demo_frame)]) [lit ''X'', lit ''S'']
      = [Warning_sheet_not_found (lit ''X''), Info_sheet_loaded (lit ''S'') (lit ''S'') 3]"
  using ne_XS by (simp add: loop_log_def demo_frame_def demo_env_def clean_S)


lemma demo_materialize:
  "materialize demo_env [(lit ''S'', demo_frame)]
     (filter (\<lambda>n. map_of [(lit ''S'', demo_frame)] n \<noteq> None) [lit ''X'', lit ''S''])
     (tables_of demo_world (lit ''t.db'')) = [lit ''S'' \<mapsto> demo_frame]"
  using ne_XS by (simp add: materialize_def demo_env_def clean_S tables_of_def demo_world_def)

text \<open>
  Claim C8. \<open>close\<close> always returns: no state of the manager and of the disk
  makes it raise. When the temporary database cannot be deleted, the disk is
  left as it is and the failure is logged as a warning. A second \<open>close\<close>
  returns too and leaves the manager and the disk as the first one left them.
\<close>

theorem close_completes:
  "\<exists>w' m' l. close w m = Inr (w', m', l) \<and> (\<exists>l'. close w' m' = Inr (w', m', l'))
    \<and> (temp_db m \<and> databases w (db_path m) \<noteq> None \<and> db_path m \<in> protected w \<longrightarrow>
          w' = w \<and> Warning_temp_db_not_removed PermissionError \<in> set l)
    \<and> (temp_db m \<and> databases w (db_path m) \<noteq> None \<and> db_path m \<notin> protected w \<longrightarrow>
          databases w' = (databases w)(db_path m := None))
    \<and> connection m' = (case connection m of None \<Rightarrow> None | Some _ \<Rightarrow> Some Closed)"
  by (auto simp: close_def os_remove_def split: option.splits sum.splits if_splits prod.splits)

theorem close_completes_witness:
  "close (demo_world\<lparr>databases := [lit ''t.db'' \<mapsto> Map.empty], protected := {lit ''t.db''}\<rparr>)
         (demo_manager\<lparr>connection := Some Open\<rparr>)
   = Inr (demo_world\<lparr>databases := [lit ''t.db'' \<mapsto> Map.empty], protected := {lit ''t.db''}\<rparr>,
          demo_manager\<lparr>connection := Some Closed\<rparr>,
          [Info_connection_closed, Warning_temp_db_not_removed PermissionError])"
  using close_completes [of "demo_world\<lparr>databases := [lit ''t.db'' \<mapsto> Map.empty], protected := {lit ''t.db''}\<rparr>"
      "demo_manager\<lparr>connection := Some Open\<rparr>"]
  by (simp add: close_def os_remove_def demo_manager_def init_def demo_world_def)


theorem update_sheet_from_query_replaces_witness:
  "\<exists>w' m' l. update_sheet_from_query demo_env demo_world demo_manager (lit ''S'') (lit ''q'')
        = Inr (w', m', l)
     \<and> map_of (modified_data m') (lit ''S'') = Some demo_result
     \<and> original_excel_data m' = [(lit ''S'', demo_frame)]
     \<and> tables_of w' (lit ''t.db'') = tables_of demo_world (lit ''t.db'')"
proof -
  obtain w' m' l where h:
    "update_sheet_from_query demo_env demo_world demo_manager (lit ''S'') (lit ''q'') = Inr (w', m', l)"
    by (simp add: update_sheet_from_query_def execute_query_def open_db_def demo_defs)
  have r: "read_sql_query demo_env (tables_of demo_world (db_path demo_manager)) (lit ''q'')
      = Inr demo_result"
    by (simp add: demo_env_def)
  have o: "original_excel_data demo_manager = [(lit ''S'', demo_frame)]"
    by (simp add: demo_manager_def)
  from update_sheet_from_query_replaces [OF h] r o h show ?thesis
    by auto
qed


text \<open>
  Claim C10. A call of \<open>load_sheets_to_sql\<close> with a list of requested names, on
  a loaded manager: a requested name that is no key of the original map only
  adds a warning to the log, and the run ends as the run over the present
  names alone does. When the engine takes every present frame and the database
  can be opened, the call returns, and the tables are those the present names
  create or replace in order, so every present requested name has its table.
\<close>

theorem load_sheets_to_sql_skips_missing:
  assumes loaded: "original_excel_data m \<noteq> []"
    and requested: "names \<noteq> []"
    and accepted: "\<forall>n \<in> set names. \<forall>df. map_of (original_excel_data m) n = Some df \<longrightarrow>
        \<not> to_sql_fails E (clean_table_name (unicode E) n) df"
    and opens: "databases w (db_path m) \<noteq> None \<or> db_path m \<notin> protected w"
  shows "\<exists>w'. load_sheets_to_sql E w m (Some names)
          = Inr (w', m, map (loop_log E (original_excel_data m)) names)
     \<and> tables_of w' (db_path m)
          = materialize E (original_excel_data m)
              (filter (\<lambda>n. map_of (original_excel_data m) n \<noteq> None) names)
              (tables_of w (db_path m))
     \<and> (\<forall>n \<in> set names. map_of (original_excel_data m) n = None \<longrightarrow>
           loop_log E (original_excel_data m) n = Warning_sheet_not_found n)
     \<and> (\<forall>n \<in> set names. map_of (original_excel_data m) n \<noteq> None \<longrightarrow>
           clean_table_name (unicode E) n \<in> dom (tables_of w' (db_path m)))
     \<and> map_sum id fst (load_loop E (original_excel_data m) (db_path m) names w)
          = map_sum id fst (load_loop E (original_excel_data m) (db_path m)
              (filter (\<lambda>n. map_of (original_excel_data m) n \<noteq> None) names) w)"
proof -
  let ?orig = "original_excel_data m"
  from load_loop_ok [OF accepted opens]
  obtain w' where run: "load_loop E ?orig (db_path m) names w = Inr (w', map (loop_log E ?orig) names)"
    and tabs: "tables_of w' (db_path m) = materialize E ?orig names (tables_of w (db_path m))"
    by blast
  have 1: "load_sheets_to_sql E w m (Some names) = Inr (w', m, map (loop_log E ?orig) names)"
    using loaded requested run by (simp add: load_sheets_to_sql_def)
  have 2: "tables_of w' (db_path m)
      = materialize E ?orig (filter (\<lambda>n. map_of ?orig n \<noteq> None) names) (tables_of w (db_path m))"
    using tabs by (simp only: materialize_filter)
  have 3: "\<forall>n \<in> set names. map_of ?orig n = None \<longrightarrow> loop_log E ?orig n = Warning_sheet_not_found n"
    by (simp add: loop_log_def)
  have 4: "\<forall>n \<in> set names. map_of ?orig n \<noteq> None \<longrightarrow>
      clean_table_name (unicode E) n \<in> dom (tables_of w' (db_path m))"
    unfolding tabs using materialize_dom by blast
  from 1 2 3 4 load_loop_skip [of E ?orig "db_path m" names w] show ?thesis
    by blast
qed

theorem load_sheets_to_sql_skips_missing_witness:
  "\<exists>w'. load_sheets_to_sql demo_env demo_world demo_manager (Some [lit ''X'', lit ''S''])
       = Inr (w', demo_manager,
              [Warning_sheet_not_found (lit ''X''), Info_sheet_loaded (lit ''S'') (lit ''S'') 3])
     \<and> tables_of w' (lit ''t.db'') = [lit ''S'' \<mapsto> demo_frame]"
proof -
  have orig: "original_excel_data demo_manager = [(lit ''S'', demo_frame)]"
    and dbp: "db_path demo_manager = lit ''t.db''"
    by (simp_all add: demo_manager_def init_def)
  have loaded: "original_excel_data demo_manager \<noteq> []"
    by (simp add: orig)
  have requested: "[lit ''X'', lit ''S''] \<noteq> []"
    by simp
  have accepted: "\<forall>n \<in> set [lit ''X'', lit ''S'']. \<forall>df.
      map_of (original_excel_data demo_manager) n = Some df \<longrightarrow>
        \<not> to_sql_fails demo_env (clean_table_name (unicode demo_env) n) df"
    by (simp add: orig demo_env_def demo_frame_def)
  have opens: "databases demo_world (db_path demo_manager) \<noteq> None
      \<or> db_path demo_manager \<notin> protected demo_world"
    by (simp add: demo_world_def)
  from load_sheets_to_sql_skips_missing [OF loaded requested accepted opens]
  obtain w' where
    run: "load_sheets_to_sql demo_env demo_world demo_manager (Some [lit ''X'', lit ''S''])
       = Inr (w', demo_manager, map (loop_log demo_env (original_excel_data demo_manager))
               [lit ''X'', lit ''S''])"
    and tabs: "tables_of w' (db_path demo_manager)
       = materialize demo_env (original_excel_data demo_manager)
           (filter (\<lambda>n. map_of (original_excel_data demo_manager) n \<noteq> None)
              [lit ''X'', lit ''S''])
           (tables_of demo_world (db_path demo_manager))"
    by blast
  have run': "load_sheets_to_sql demo_env demo_world demo_manager (Some [lit ''X'', lit ''S''])
       = Inr (w', demo_manager,
              [Warning_sheet_not_found (lit ''X''), Info_sheet_loaded (lit ''S'') (lit ''S'') 3])"
    using run by (simp only: orig demo_log)
  have tabs': "tables_of w' (lit ''t.db'') = [lit ''S'' \<mapsto> demo_frame]"
    using tabs by (simp only: orig dbp demo_materialize)
  from run' tabs' show ?thesis
    by (intro exI conjI)
qed

section \<open>Properties of the data-quality report\<close>









section \<open>Properties of the ordering\<close>









section \<open>Properties of the engine's sums\<close>








section \<open>Properties of outlier detection\<close>


















section \<open>Properties of the Pareto analysis\<close>












































end
